theory Spec2Isabelle
  imports Main "HOL-Library.Word"
begin

section \<open>Data model of \<^verbatim>\<open>timed-task.h\<close>\<close>

text \<open>
  The header declares an enumeration \<^verbatim>\<open>TimeUnit : uint64_t\<close>, the class
  \<^verbatim>\<open>StatisticsCollector\<close> and the class \<^verbatim>\<open>TimerTask\<close>.

  Conventions of the embedding:
  \<^item> \<^verbatim>\<open>uint64_t\<close> and \<^verbatim>\<open>size_t\<close> fields are \<open>64 word\<close>: \<open>+\<close> wraps modulo \<open>2 ^ 64\<close>.
  \<^item> \<^verbatim>\<open>chrono::nanoseconds\<close> counts and \<^verbatim>\<open>steady_clock\<close> readings are signed 64-bit
    in the source, and signed overflow is undefined there. They are modelled as \<open>int\<close>:
    the model describes the executions whose clock arithmetic stays in range. The
    conversions between the two worlds are explicit: \<open>word_of_int\<close> is the
    (modular) conversion of a signed count to \<^verbatim>\<open>uint64_t\<close>, \<open>sint\<close> the conversion of a
    \<^verbatim>\<open>uint64_t\<close> to a signed count.
  \<^item> Undefined behaviour that the source can reach (integer division by zero) is a
    value of the type \<open>error\<close>, and so are the \<^verbatim>\<open>std::terminate\<close> of destroying a joinable
    thread and a \<^verbatim>\<open>join()\<close> that never returns; functions that can reach one return
    \<open>error + 'a\<close>.
\<close>

type_synonym uint64_t = "64 word"
type_synonym size_t = "64 word"
type_synonym duration_ns = int
type_synonym time_point_ns = int

datatype error = DivisionByZero | Terminate | NeverReturns

datatype TimeUnit = nanoseconds | microseconds | milliseconds | seconds | minutes | hours

text \<open>The enumerators' values (lines 17--24), each built from the previous one.\<close>

fun unit_value :: "TimeUnit \<Rightarrow> uint64_t" where
  "unit_value nanoseconds = 1"
| "unit_value microseconds = 1 * 1000"
| "unit_value milliseconds = 1 * 1000 * 1000"
| "unit_value seconds = 1 * 1000 * 1000 * 1000"
| "unit_value minutes = 1 * 1000 * 1000 * 1000 * 60"
| "unit_value hours = 1 * 1000 * 1000 * 1000 * 60 * 60"

subsection \<open>StatisticsCollector\<close>

record StatisticsCollector =
  samples :: size_t
  acummulation :: uint64_t
  compensation :: uint64_t
  maxVariance :: uint64_t
  minVariance :: uint64_t
  toleraceExcessionCount :: size_t

text \<open>The default member initialisers (lines 29--36); \<open>- 1\<close> is \<^verbatim>\<open>numeric_limits<uint64_t>::max()\<close>.\<close>

definition StatisticsCollector_new :: StatisticsCollector where
  "StatisticsCollector_new =
     \<lparr> samples = 0, acummulation = 0, compensation = 0,
       maxVariance = 0, minVariance = - 1, toleraceExcessionCount = 0 \<rparr>"

definition calcSleepCompensation :: "duration_ns \<Rightarrow> StatisticsCollector \<Rightarrow> StatisticsCollector" where
  "calcSleepCompensation amountSlept c =
     c \<lparr> compensation := compensation c + word_of_int amountSlept \<rparr>"

definition accumulate :: "uint64_t \<Rightarrow> StatisticsCollector \<Rightarrow> StatisticsCollector" where
  "accumulate amount c =
     c \<lparr> acummulation := acummulation c + amount, samples := samples c + 1 \<rparr>"

definition considerVariance :: "uint64_t \<Rightarrow> StatisticsCollector \<Rightarrow> StatisticsCollector" where
  "considerVariance errorSample c =
     c \<lparr> maxVariance := max errorSample (maxVariance c),
         minVariance := min errorSample (minVariance c) \<rparr>"

text \<open>
  The comparison \<^verbatim>\<open>execTime > (expected * 1.05)\<close> of line 52 is carried out in
  \<^verbatim>\<open>double\<close>: \<^verbatim>\<open>expected * 1.05\<close> is a \<^verbatim>\<open>duration<double, nano>\<close>, and \<^verbatim>\<open>execTime\<close> is
  converted to that type for the comparison. \<open>round53\<close> is rounding to the nearest
  value with a 53-bit significand, ties to even (the exponent range of binary64 is
  never left by the values that occur here); on integers below \<open>2 ^ 53\<close> it is the
  identity. The literal \<^verbatim>\<open>1.05\<close> is the double \<open>4728779608739021 / 2 ^ 52\<close>, so the
  product and the converted \<^verbatim>\<open>execTime\<close> are compared as multiples of \<open>1 / 2 ^ 52\<close>.
\<close>

function bit_length :: "int \<Rightarrow> nat" where
  "bit_length n = (if n \<le> 0 then 0 else Suc (bit_length (n div 2)))"
  by pat_completeness auto
termination
  by (relation "measure nat") auto

declare bit_length.simps [simp del]

definition round53 :: "int \<Rightarrow> int" where
  "round53 n =
     (let a = \<bar>n\<bar>;
          k = bit_length a - 53;
          q = a div 2 ^ k;
          r = a mod 2 ^ k
      in sgn n * ((if 2 * r < 2 ^ k \<or> (2 * r = 2 ^ k \<and> even q) then q else q + 1) * 2 ^ k))"

definition tolerance_exceeded :: "duration_ns \<Rightarrow> duration_ns \<Rightarrow> bool" where
  "tolerance_exceeded execTime expected \<longleftrightarrow>
     round53 (round53 expected * 4728779608739021) < round53 execTime * 2 ^ 52"

definition calcExecTimeError ::
  "time_point_ns \<Rightarrow> time_point_ns \<Rightarrow> duration_ns \<Rightarrow> StatisticsCollector \<Rightarrow> StatisticsCollector" where
  "calcExecTimeError start endt expected c =
     (let execTime = endt - start;
          error = (word_of_int \<bar>execTime - expected\<bar> :: uint64_t);
          c1 = accumulate error c;
          c2 = considerVariance error c1
      in if tolerance_exceeded execTime expected
         then c2 \<lparr> toleraceExcessionCount := toleraceExcessionCount c2 + 1 \<rparr>
         else c2)"

text \<open>
  \<^verbatim>\<open>printResults\<close> (lines 67--95) divides by \<^verbatim>\<open>samples\<close> first; the source has no test
  of the divisor, so the division by zero (undefined in C++) is the \<open>Inl\<close> branch here.
  What reaches \<^verbatim>\<open>cout\<close> is a \<open>report\<close>: the sample count, the two averages and the two
  extremes in nanoseconds, the sampling unit they are scaled by, its display name, and
  the tolerance count. The scaling itself (a \<^verbatim>\<open>double\<close> division by the unit, printed
  with six decimals) is formatting and is not modelled.
\<close>

record report =
  r_samples :: size_t
  r_deviation_average_ns :: uint64_t
  r_compensation_average_ns :: uint64_t
  r_maxVariance :: uint64_t
  r_minVariance :: uint64_t
  r_samplingUnit :: TimeUnit
  r_unitName :: string
  r_toleraceExcessionCount :: size_t

fun unitName :: "TimeUnit \<Rightarrow> string" where
  "unitName nanoseconds = ''nanoseconds''"
| "unitName microseconds = ''microseconds''"
| "unitName milliseconds = ''milliseconds''"
| "unitName seconds = ''seconds''"
| "unitName minutes = ''minutes''"
| "unitName hours = ''hours''"

definition printResults :: "TimeUnit \<Rightarrow> StatisticsCollector \<Rightarrow> error + report" where
  "printResults samplingUnit c =
     (if samples c = 0 then Inl DivisionByZero
      else Inr \<lparr> r_samples = samples c,
                 r_deviation_average_ns = acummulation c div samples c,
                 r_compensation_average_ns = compensation c div samples c,
                 r_maxVariance = maxVariance c,
                 r_minVariance = minVariance c,
                 r_samplingUnit = samplingUnit,
                 r_unitName = unitName samplingUnit,
                 r_toleraceExcessionCount = toleraceExcessionCount c \<rparr>)"

text \<open>
  The two recording calls, as data, and a sequence of them applied to a collector in
  order: the states a collector can be in are those reached from
  \<open>StatisticsCollector_new\<close> by such a sequence.
\<close>

datatype collector_call =
  CalcExecTimeError time_point_ns time_point_ns duration_ns
| CalcSleepCompensation duration_ns

fun apply_call :: "collector_call \<Rightarrow> StatisticsCollector \<Rightarrow> StatisticsCollector" where
  "apply_call (CalcExecTimeError start endt expected) c = calcExecTimeError start endt expected c"
| "apply_call (CalcSleepCompensation amountSlept) c = calcSleepCompensation amountSlept c"

fun apply_calls :: "collector_call list \<Rightarrow> StatisticsCollector \<Rightarrow> StatisticsCollector" where
  "apply_calls [] c = c"
| "apply_calls (x # xs) c = apply_calls xs (apply_call x c)"

fun is_CalcExecTimeError :: "collector_call \<Rightarrow> bool" where
  "is_CalcExecTimeError (CalcExecTimeError start endt expected) = True"
| "is_CalcExecTimeError (CalcSleepCompensation amountSlept) = False"

subsection \<open>The worker loop of TimerTask\<close>

text \<open>
  What the program writes to \<^verbatim>\<open>cout\<close>: the worker prints the sleep time of every
  iteration (line 176), \<^verbatim>\<open>stop\<close> prints the collector's results (line 139).
\<close>

datatype printed = SleepTime duration_ns | Results report

text \<open>The remainder of C++ on signed integers truncates towards zero.\<close>

definition c_rem :: "int \<Rightarrow> int \<Rightarrow> int" where
  "c_rem a b = sgn a * (\<bar>a\<bar> mod \<bar>b\<bar>)"

text \<open>
  Lines 155--173: the sleep time of one iteration from the worker's period
  \<^verbatim>\<open>full_sleep_time_nanos\<close> and the two clock readings around \<^verbatim>\<open>doAction()\<close>. The
  remainder by a zero period is undefined in the source.
\<close>

definition sleepTime :: "duration_ns \<Rightarrow> time_point_ns \<Rightarrow> time_point_ns \<Rightarrow> error + duration_ns" where
  "sleepTime full_sleep_time_nanos start stop_t =
     (let s = full_sleep_time_nanos - (stop_t - start)
      in if s < 0
         then (if full_sleep_time_nanos = 0 then Inl DivisionByZero
               else Inr (full_sleep_time_nanos - c_rem \<bar>s\<bar> full_sleep_time_nanos - 50000))
         else Inr (s - 50000))"

text \<open>
  The clock is an input of the model. A cycle is an iteration whose wait ran out
  without cancellation: its three readings are \<^verbatim>\<open>start\<close>, \<^verbatim>\<open>stop\<close> and the
  \<^verbatim>\<open>Clock::now()\<close> of line 181. \<open>loopBody\<close> is such an iteration (lines 151--182).
\<close>

type_synonym cycle = "time_point_ns \<times> time_point_ns \<times> time_point_ns"

fun loopBody :: "duration_ns \<Rightarrow> cycle \<Rightarrow> StatisticsCollector \<Rightarrow> error + (StatisticsCollector \<times> printed)" where
  "loopBody full_sleep_time_nanos (start, stop_t, now) c =
     (case sleepTime full_sleep_time_nanos start stop_t of
        Inl e \<Rightarrow> Inl e
      | Inr s \<Rightarrow>
          Inr (calcSleepCompensation s (calcExecTimeError start now full_sleep_time_nanos c),
               SleepTime s))"

text \<open>
  The worker thread from its start to its exit: the cycles it completed, then the
  iteration whose wait returned \<^verbatim>\<open>true\<close> (\<^verbatim>\<open>running_\<close> was false), which prints its
  sleep time and breaks without recording anything. The worker leaves the loop only
  this way, so a run that \<^verbatim>\<open>join()\<close> has waited for always has this shape.
\<close>

type_synonym worker_run = "cycle list \<times> (time_point_ns \<times> time_point_ns)"

fun workerLoop ::
  "duration_ns \<Rightarrow> cycle list \<Rightarrow> time_point_ns \<times> time_point_ns \<Rightarrow> StatisticsCollector
     \<Rightarrow> error + (StatisticsCollector \<times> printed list)" where
  "workerLoop full_sleep_time_nanos [] (start, stop_t) c =
     (case sleepTime full_sleep_time_nanos start stop_t of
        Inl e \<Rightarrow> Inl e
      | Inr s \<Rightarrow> Inr (c, [SleepTime s]))"
| "workerLoop full_sleep_time_nanos (cy # rest) final c =
     (case loopBody full_sleep_time_nanos cy c of
        Inl e \<Rightarrow> Inl e
      | Inr (c1, line) \<Rightarrow>
          (case workerLoop full_sleep_time_nanos rest final c1 of
             Inl e \<Rightarrow> Inl e
           | Inr (c2, out) \<Rightarrow> Inr (c2, line # out)))"

subsection \<open>TimerTask\<close>

text \<open>
  A \<^verbatim>\<open>TimerTask\<close> as the two threads share it. The members \<^verbatim>\<open>rate_\<close>, \<^verbatim>\<open>ratio_\<close>,
  \<^verbatim>\<open>running_\<close> and \<^verbatim>\<open>workerThread_\<close> lose their final underscore, which a name
  cannot end with here. \<open>workerThread\<close> is \<open>None\<close> when the \<^verbatim>\<open>std::thread\<close> member is
  not joinable. A joinable thread is \<open>Spawned\<close> from its creation in \<^verbatim>\<open>init()\<close> until
  it executes the first statements of its body (lines 147--148), and \<open>Started p\<close> from
  then on, \<open>p\<close> being its local \<^verbatim>\<open>full_sleep_time_nanos\<close>.

  The threads are interleaved at the grain of these steps. \<^verbatim>\<open>init()\<close> only creates
  the thread: \<^verbatim>\<open>running_\<close> stays as it is. \<open>workerStart\<close> is the worker's own step
  \<^verbatim>\<open>running_ = true\<close>, together with the computation of its period from the \<^verbatim>\<open>ratio_\<close>
  and \<^verbatim>\<open>rate_\<close> of that moment; it happens at some point after the creation, not
  under the lock. What the worker then does to the collector and to \<^verbatim>\<open>cout\<close> becomes
  visible to the controller when \<^verbatim>\<open>stop\<close> joins it; \<^verbatim>\<open>stop\<close> therefore takes the
  worker's run as an argument (unused when there is no started thread to join).
\<close>

datatype worker = Spawned | Started duration_ns

record TimerTask =
  rate :: uint64_t
  ratio :: TimeUnit
  collector :: StatisticsCollector
  statisticsEnabled :: bool
  running :: bool
  workerThread :: "worker option"

definition init :: "TimerTask \<Rightarrow> TimerTask" where
  "init t = (if rate t \<noteq> 0 then t \<lparr> workerThread := Some Spawned \<rparr> else t)"

definition workerStart :: "TimerTask \<Rightarrow> TimerTask" where
  "workerStart t =
     (case workerThread t of
        None \<Rightarrow> t
      | Some Spawned \<Rightarrow>
          t \<lparr> running := True,
              workerThread := Some (Started (sint (unit_value (ratio t) * rate t))) \<rparr>
      | Some (Started p) \<Rightarrow> t)"

definition TimerTask_new :: "uint64_t \<Rightarrow> TimeUnit \<Rightarrow> bool \<Rightarrow> TimerTask" where
  "TimerTask_new r u enableStatistics =
     init \<lparr> rate = r, ratio = u, collector = StatisticsCollector_new,
            statisticsEnabled = enableStatistics, running = False,
            workerThread = None \<rparr>"

text \<open>
  \<^verbatim>\<open>stop()\<close> (lines 127--141). With a started worker, the write \<^verbatim>\<open>running_ = false\<close>
  and the notification end the worker's run at its next wait, and \<^verbatim>\<open>join()\<close> returns.
  With a thread that has not yet executed \<^verbatim>\<open>running_ = true\<close>, the write of
  \<^verbatim>\<open>stop()\<close> comes first and is overwritten when the worker starts; nothing clears the
  flag again, the worker never leaves its loop, and \<^verbatim>\<open>join()\<close> does not return.
\<close>

definition stop :: "worker_run \<Rightarrow> TimerTask \<Rightarrow> error + (TimerTask \<times> printed list)" where
  "stop run t =
     (case (case workerThread t of
              None \<Rightarrow> Inr (t, [])
            | Some Spawned \<Rightarrow> Inl NeverReturns
            | Some (Started p) \<Rightarrow>
                (case workerLoop p (fst run) (snd run) (collector t) of
                   Inl e \<Rightarrow> Inl e
                 | Inr (c, out) \<Rightarrow>
                     Inr (t \<lparr> collector := c, running := False, workerThread := None \<rparr>, out)))
      of
        Inl e \<Rightarrow> Inl e
      | Inr (t1, out) \<Rightarrow>
          if statisticsEnabled t1
          then (case printResults milliseconds (collector t1) of
                  Inl e \<Rightarrow> Inl e
                | Inr r \<Rightarrow> Inr (t1, out @ [Results r]))
          else Inr (t1, out))"

definition restart :: "worker_run \<Rightarrow> TimerTask \<Rightarrow> error + (TimerTask \<times> printed list)" where
  "restart run t =
     (case stop run t of
        Inl e \<Rightarrow> Inl e
      | Inr (t1, out) \<Rightarrow> Inr (init t1, out))"

definition setRate ::
  "worker_run \<Rightarrow> uint64_t \<Rightarrow> TimeUnit \<Rightarrow> bool \<Rightarrow> TimerTask \<Rightarrow> error + (TimerTask \<times> printed list)" where
  "setRate run r u imediate t =
     (let t1 = t \<lparr> rate := r, ratio := u \<rparr>
      in if imediate then restart run t1 else Inr (t1, []))"

text \<open>
  The destructor (lines 111--114) stops the task only if \<^verbatim>\<open>running_\<close> is set, ``don't
  call again if stop() was explicitly called''; the members are destroyed after it, and
  destroying a thread that is still joinable terminates the program.
\<close>

definition destroy :: "worker_run \<Rightarrow> TimerTask \<Rightarrow> error + printed list" where
  "destroy run t =
     (if running t
      then (case stop run t of
              Inl e \<Rightarrow> Inl e
            | Inr (t1, out) \<Rightarrow> Inr out)
      else if workerThread t \<noteq> None then Inl Terminate
      else Inr [])"




text \<open>
  The flag and the thread go together: \<^verbatim>\<open>running_\<close> is set exactly while there is a
  started worker that \<^verbatim>\<open>stop\<close> has not yet joined.
\<close>

fun started :: "worker option \<Rightarrow> bool" where
  "started None = False"
| "started (Some Spawned) = False"
| "started (Some (Started p)) = True"

definition consistent :: "TimerTask \<Rightarrow> bool" where
  "consistent t \<longleftrightarrow> (running t \<longleftrightarrow> started (workerThread t))"


section \<open>Properties of the statistics collector\<close>

text \<open>Evaluation and bounds of \<open>bit_length\<close>.\<close>

lemma bit_length_nonpos: "n \<le> 0 \<Longrightarrow> bit_length n = 0"
  by (subst bit_length.simps) simp

lemma bit_length_pos: "0 < n \<Longrightarrow> bit_length n = Suc (bit_length (n div 2))"
  by (subst bit_length.simps) simp

lemma bit_length_le: "a < 2 ^ m \<Longrightarrow> bit_length a \<le> m"
proof (induction a arbitrary: m rule: bit_length.induct)
  case (1 n)
  show ?case
  proof (cases "n \<le> 0")
    case True
    then show ?thesis by (simp add: bit_length_nonpos)
  next
    case False
    then obtain m' where m: "m = Suc m'" using 1(2) by (cases m) auto
    have "n div 2 < 2 ^ m'" using 1(2) m by auto
    from 1(1)[OF False this] show ?thesis using False m by (simp add: bit_length_pos)
  qed
qed

text \<open>Integers below \<open>2 ^ 53\<close> are doubles: converting them is exact.\<close>

lemma round53_small: "\<bar>n\<bar> < 2 ^ 53 \<Longrightarrow> round53 n = n"
proof -
  assume b: "\<bar>n\<bar> < 2 ^ 53"
  then have "bit_length \<bar>n\<bar> - 53 = 0" using bit_length_le by simp
  then show ?thesis by (simp add: round53_def Let_def mult_sgn_abs)
qed

text \<open>Rounding a non-negative integer: the two candidates around it.\<close>

lemma round53_nonneg:
  assumes "0 \<le> n"
  shows "round53 n =
     (if 2 * (n mod 2 ^ (bit_length n - 53)) < 2 ^ (bit_length n - 53)
         \<or> (2 * (n mod 2 ^ (bit_length n - 53)) = 2 ^ (bit_length n - 53)
            \<and> even (n div 2 ^ (bit_length n - 53)))
      then n div 2 ^ (bit_length n - 53) else n div 2 ^ (bit_length n - 53) + 1)
     * 2 ^ (bit_length n - 53)"
proof (cases "n = 0")
  case True
  then show ?thesis by (simp add: round53_def Let_def)
next
  case False
  with assms have "sgn n = 1" "\<bar>n\<bar> = n" by simp_all
  then show ?thesis by (simp add: round53_def Let_def)
qed

text \<open>
  A multiple of the rounding step below the number stays below its rounding; one above it
  by more than half a step stays above.
\<close>

lemma round53_compare:
  fixes n m :: int and k :: nat
  assumes n: "0 \<le> n" and k: "k = bit_length n - 53"
  shows below: "m * 2 ^ k \<le> n \<Longrightarrow> m * 2 ^ k \<le> round53 n"
    and above: "n < m * 2 ^ k \<Longrightarrow> 2 ^ k < 2 * (m * 2 ^ k - n) \<Longrightarrow> round53 n < m * 2 ^ k"
proof -
  define D :: int where "D = 2 ^ k"
  define q where "q = n div D"
  define r where "r = n mod D"
  have D: "0 < D" by (simp add: D_def)
  have nqr: "n = q * D + r" by (simp add: q_def r_def)
  have r: "0 \<le> r" "r < D" using D by (simp_all add: r_def)
  have R: "round53 n = (if 2 * r < D \<or> (2 * r = D \<and> even q) then q else q + 1) * D"
    using round53_nonneg [OF n] by (simp add: D_def q_def r_def k)
  {
    assume le: "m * D \<le> n"
    have "m * D < (q + 1) * D" using le nqr r by (simp add: algebra_simps)
    then have "m < q + 1" using D by (simp add: mult_less_cancel_right)
    then have "m * D \<le> q * D" using D by (simp add: mult_le_cancel_right)
    moreover have "q * D \<le> round53 n" using R D by (simp add: algebra_simps)
    ultimately have "m * D \<le> round53 n" by linarith
  }
  then show "m * 2 ^ k \<le> n \<Longrightarrow> m * 2 ^ k \<le> round53 n" by (simp add: D_def)
  {
    assume gt: "n < m * D" and far: "D < 2 * (m * D - n)"
    have "q * D < m * D" using gt nqr r by linarith
    then have "q < m" using D by (simp add: mult_less_cancel_right)
    then have mq: "(q + 1) * D \<le> m * D" using D by (simp add: mult_le_cancel_right)
    have "round53 n < m * D"
    proof (cases "2 * r < D \<or> (2 * r = D \<and> even q)")
      case True
      then have "round53 n = q * D" using R by simp
      then show ?thesis using \<open>q * D < m * D\<close> by simp
    next
      case False
      then have up: "round53 n = (q + 1) * D" and "D \<le> 2 * r" using R by auto
      define A where "A = (q + 1) * D"
      define B where "B = m * D"
      have "2 * (A - n) \<le> D" using nqr \<open>D \<le> 2 * r\<close> by (simp add: A_def algebra_simps)
      moreover have "D < 2 * (B - n)" using far by (simp add: B_def)
      ultimately have "A < B" by presburger
      then have "(q + 1) * D < m * D" by (simp add: A_def B_def)
      then show ?thesis using up by simp
    qed
  }
  then show "n < m * 2 ^ k \<Longrightarrow> 2 ^ k < 2 * (m * 2 ^ k - n) \<Longrightarrow> round53 n < m * 2 ^ k"
    by (simp add: D_def)
qed

text \<open>
  For periods below \<open>2 ^ 48\<close> ns (over 78 hours) and measured times below \<open>2 ^ 53\<close> ns,
  the comparison in \<^verbatim>\<open>double\<close> decides exactly whether the measured time is above 105\%
  of the period.
\<close>

lemma tolerance_exceeded_exact:
  assumes p: "0 \<le> p" "p < 2 ^ 48" and t: "\<bar>t\<bar> < 2 ^ 53"
  shows "tolerance_exceeded t p \<longleftrightarrow> 21 * p < 20 * t"
proof -
  define N where "N = p * 4728779608739021"
  define k where "k = bit_length N - 53"
  define D :: int where "D = 2 ^ k"
  define T where "T = t * 2 ^ 52"
  have rp: "round53 p = p" using p by (intro round53_small) simp
  have rt: "round53 t = t" using t by (rule round53_small)
  have te: "tolerance_exceeded t p \<longleftrightarrow> round53 N < T"
    by (simp add: tolerance_exceeded_def rp rt N_def T_def)
  have N0: "0 \<le> N" using p by (simp add: N_def)
  have "N \<le> (2 ^ 48 - 1) * 4728779608739021" using p by (simp add: N_def)
  then have "N < 2 ^ 101" by simp
  then have "bit_length N \<le> 101" by (rule bit_length_le)
  then have k48: "k \<le> 48" by (simp add: k_def)
  then have Dle: "D \<le> 2 ^ 48" unfolding D_def by (metis one_le_numeral power_increasing)
  have "(2::int) ^ 52 = 2 ^ (52 - k) * 2 ^ k" using k48 by (simp flip: power_add)
  then have Tm: "T = (t * 2 ^ (52 - k)) * 2 ^ k" by (simp add: T_def)
  have key: "20 * N = 21 * p * 2 ^ 52 + 4 * p" by (simp add: N_def)
  have T20: "20 * T = 20 * t * 2 ^ 52" by (simp add: T_def)
  show ?thesis
  proof (cases "21 * p < 20 * t")
    case True
    then have "21 * p + 1 \<le> 20 * t" by simp
    then have "(21 * p + 1) * 2 ^ 52 \<le> 20 * t * (2 ^ 52 :: int)"
      by (rule mult_right_mono) simp
    then have gap: "20 * N - 4 * p + 2 ^ 52 \<le> 20 * T" using key T20 by (simp add: algebra_simps)
    then have "N < T" using p by simp
    moreover have "2 ^ k < 2 * (T - N)" using gap p Dle by (simp add: D_def)
    ultimately have "round53 N < T"
      using round53_compare(2) [OF N0 k_def, of "t * 2 ^ (52 - k)"] Tm by simp
    then show ?thesis using te True by simp
  next
    case False
    then have "20 * t \<le> 21 * p" by simp
    then have "20 * t * (2 ^ 52 :: int) \<le> 21 * p * 2 ^ 52"
      by (rule mult_right_mono) simp
    then have "T \<le> N" using key T20 p by simp
    then have "T \<le> round53 N"
      using round53_compare(1) [OF N0 k_def, of "t * 2 ^ (52 - k)"] Tm by simp
    then show ?thesis using te False by simp
  qed
qed

text \<open>The fields after \<^verbatim>\<open>calcExecTimeError\<close>, one by one.\<close>

lemma calcExecTimeError_fields:
  "samples (calcExecTimeError start endt expected c) = samples c + 1"
  "acummulation (calcExecTimeError start endt expected c) =
     acummulation c + word_of_int \<bar>(endt - start) - expected\<bar>"
  "maxVariance (calcExecTimeError start endt expected c) =
     max (word_of_int \<bar>(endt - start) - expected\<bar>) (maxVariance c)"
  "minVariance (calcExecTimeError start endt expected c) =
     min (word_of_int \<bar>(endt - start) - expected\<bar>) (minVariance c)"
  "compensation (calcExecTimeError start endt expected c) = compensation c"
  "toleraceExcessionCount (calcExecTimeError start endt expected c) =
     (if tolerance_exceeded (endt - start) expected
      then toleraceExcessionCount c + 1 else toleraceExcessionCount c)"
  by (simp_all add: calcExecTimeError_def accumulate_def considerVariance_def Let_def)





lemma calcSleepCompensation_fields:
  "samples (calcSleepCompensation a c) = samples c"
  "acummulation (calcSleepCompensation a c) = acummulation c"
  "maxVariance (calcSleepCompensation a c) = maxVariance c"
  "minVariance (calcSleepCompensation a c) = minVariance c"
  "toleraceExcessionCount (calcSleepCompensation a c) = toleraceExcessionCount c"
  "compensation (calcSleepCompensation a c) = compensation c + word_of_int a"
  by (simp_all add: calcSleepCompensation_def)

text \<open>Once the minimum is below the maximum, every call keeps it there.\<close>

lemma apply_call_min_le_max:
  "minVariance c \<le> maxVariance c \<Longrightarrow> minVariance (apply_call x c) \<le> maxVariance (apply_call x c)"
  by (cases x)
     (auto simp add: calcExecTimeError_fields calcSleepCompensation_fields min_le_iff_disj le_max_iff_disj)

lemma apply_calls_min_le_max:
  "minVariance c \<le> maxVariance c \<Longrightarrow> minVariance (apply_calls xs c) \<le> maxVariance (apply_calls xs c)"
  by (induction xs arbitrary: c) (simp_all add: apply_call_min_le_max)

lemma calcExecTimeError_min_le_max:
  "minVariance (calcExecTimeError start endt expected c) \<le> maxVariance (calcExecTimeError start endt expected c)"
  by (simp add: calcExecTimeError_fields min_le_iff_disj le_max_iff_disj)

lemma apply_calls_recorded:
  "list_ex is_CalcExecTimeError xs \<Longrightarrow> minVariance (apply_calls xs c) \<le> maxVariance (apply_calls xs c)"
proof (induction xs arbitrary: c)
  case Nil
  then show ?case by simp
next
  case (Cons x xs)
  show ?case
  proof (cases x)
    case (CalcExecTimeError start endt expected)
    then show ?thesis
      by (simp add: apply_calls_min_le_max calcExecTimeError_min_le_max)
  next
    case (CalcSleepCompensation a)
    with Cons show ?thesis by simp
  qed
qed

text \<open>Only \<^verbatim>\<open>calcExecTimeError\<close> changes the sample count.\<close>

lemma apply_calls_no_record:
  "\<not> list_ex is_CalcExecTimeError xs \<Longrightarrow> samples (apply_calls xs c) = samples c"
proof (induction xs arbitrary: c)
  case Nil
  then show ?case by simp
next
  case (Cons x xs)
  then show ?case by (cases x) (simp_all add: calcSleepCompensation_fields)
qed

text \<open>
  Claim C7. \<open>minVariance\<close> starts at the largest \<^verbatim>\<open>uint64_t\<close> value, and in every state
  reached from the initial collector by a sequence of recording calls, if the sample
  count is not zero then \<open>minVariance \<le> maxVariance\<close>; the same holds whenever the
  sequence holds a call of \<^verbatim>\<open>calcExecTimeError\<close> at all (also where the 64-bit sample
  count has wrapped to zero).
\<close>

theorem min_le_max_invariant:
  "(\<forall>w. w \<le> minVariance StatisticsCollector_new)
   \<and> (samples (apply_calls xs StatisticsCollector_new) \<noteq> 0 \<longrightarrow>
        minVariance (apply_calls xs StatisticsCollector_new)
          \<le> maxVariance (apply_calls xs StatisticsCollector_new))
   \<and> (list_ex is_CalcExecTimeError xs \<longrightarrow>
        minVariance (apply_calls xs StatisticsCollector_new)
          \<le> maxVariance (apply_calls xs StatisticsCollector_new))"
proof (intro conjI impI allI)
  fix w :: uint64_t
  show "w \<le> minVariance StatisticsCollector_new"
    by (simp add: StatisticsCollector_new_def)
next
  assume "samples (apply_calls xs StatisticsCollector_new) \<noteq> 0"
  then have "list_ex is_CalcExecTimeError xs"
    using apply_calls_no_record [of xs StatisticsCollector_new]
    by (auto simp add: StatisticsCollector_new_def)
  then show "minVariance (apply_calls xs StatisticsCollector_new)
          \<le> maxVariance (apply_calls xs StatisticsCollector_new)"
    by (rule apply_calls_recorded)
next
  assume "list_ex is_CalcExecTimeError xs"
  then show "minVariance (apply_calls xs StatisticsCollector_new)
          \<le> maxVariance (apply_calls xs StatisticsCollector_new)"
    by (rule apply_calls_recorded)
qed

theorem min_le_max_invariant_witness:
  "samples (apply_calls [CalcExecTimeError 0 1200 1000, CalcSleepCompensation 5, CalcExecTimeError 0 900 1000]
          StatisticsCollector_new) = 2
   \<and> minVariance (apply_calls [CalcExecTimeError 0 1200 1000, CalcSleepCompensation 5, CalcExecTimeError 0 900 1000]
          StatisticsCollector_new) = 100
   \<and> maxVariance (apply_calls [CalcExecTimeError 0 1200 1000, CalcSleepCompensation 5, CalcExecTimeError 0 900 1000]
          StatisticsCollector_new) = 200
   \<and> (100 :: uint64_t) \<le> 200"
  using min_le_max_invariant [of "[CalcExecTimeError 0 1200 1000, CalcSleepCompensation 5, CalcExecTimeError 0 900 1000]"]
  by (simp add: StatisticsCollector_new_def calcExecTimeError_fields calcSleepCompensation_fields)

text \<open>
  Claim C1 (which the code does not meet). \<^verbatim>\<open>printResults\<close> on a collector with no
  samples starts with \<^verbatim>\<open>acummulation / samples\<close>: a division by zero, with no test
  before it and no ``no data'' result. The initial collector is such a state.
\<close>

theorem printResults_zero_samples:
  "samples c = 0 \<Longrightarrow> printResults u c = Inl DivisionByZero"
  by (simp add: printResults_def)

theorem printResults_zero_samples_witness:
  "samples StatisticsCollector_new = 0
   \<and> printResults milliseconds StatisticsCollector_new = Inl DivisionByZero"
  using printResults_zero_samples [of StatisticsCollector_new milliseconds]
  by (simp add: StatisticsCollector_new_def)

section \<open>Properties of the worker loop\<close>

text \<open>The sleep time for a period above zero, where no remainder by zero can occur.\<close>

lemma sleepTime_pos:
  "0 < period \<Longrightarrow>
   sleepTime period start stop_t =
     Inr ((if stop_t - start \<le> period then period - (stop_t - start)
           else period - (\<bar>period - (stop_t - start)\<bar> mod period)) - 50000)"
  by (auto simp add: sleepTime_def Let_def c_rem_def)

text \<open>Adding a signed count to a \<^verbatim>\<open>uint64_t\<close> is addition modulo \<open>2 ^ 64\<close>.\<close>

lemma uint_add_word_of_int:
  "uint ((a :: uint64_t) + word_of_int s) = (uint a + s) mod 2 ^ 64"
  by (simp add: uint_word_ariths uint_word_of_int take_bit_eq_mod mod_add_right_eq)

lemma mod_wrap_negative:
  fixes x :: int
  assumes "- (2 ^ 64) \<le> x" "x < 0"
  shows "x mod 2 ^ 64 = x + 2 ^ 64"
proof -
  have "(x + 2 ^ 64) mod 2 ^ 64 = x + 2 ^ 64"
    using assms by (intro mod_pos_pos_trivial) simp_all
  then show ?thesis by simp
qed

text \<open>
  Claim C4. In every iteration of the worker loop with a period above zero, the sleep
  time is \<open>period - elapsed\<close> when the action took at most the period, and
  \<open>period - (\<bar>period - elapsed\<bar> mod period)\<close> when it took longer; in both cases
  50000 ns (50 microseconds) are subtracted before the wait. The computation never
  faults for such a period.
\<close>

theorem sleepTime_value:
  "0 < period \<Longrightarrow>
   sleepTime period start stop_t =
     Inr ((if stop_t - start \<le> period then period - (stop_t - start)
           else period - (\<bar>period - (stop_t - start)\<bar> mod period)) - 50000)"
  by (auto simp add: sleepTime_def Let_def c_rem_def)

theorem sleepTime_value_witness:
  "(0::int) < 50000000 \<and> sleepTime 50000000 0 60000000 = Inr 39950000
    \<and> sleepTime 50000000 0 10000000 = Inr 39950000"
  using sleepTime_value [of 50000000 0 60000000] sleepTime_value [of 50000000 0 10000000]
  by simp

text \<open>
  Claim C8, as the code has it. An iteration whose wait ran out without cancellation
  records exactly one error sample, computed from the iteration's \<^verbatim>\<open>start\<close>, the clock
  reading after the wait and the period, and adds to \<open>compensation\<close> the sleep time it
  computed (the duration it asked \<^verbatim>\<open>wait_for\<close> to wait, after the 50000 ns were
  subtracted), not a measured waiting time.
\<close>

theorem cycle_records_sample_and_sleepTime:
  "sleepTime full start stop_t = Inr s \<Longrightarrow>
   (let c' = calcSleepCompensation s (calcExecTimeError start now full c)
    in loopBody full (start, stop_t, now) c = Inr (c', SleepTime s)
     \<and> samples c' = samples c + 1
     \<and> acummulation c' = acummulation c + word_of_int \<bar>(now - start) - full\<bar>
     \<and> maxVariance c' = max (maxVariance c) (word_of_int \<bar>(now - start) - full\<bar>)
     \<and> minVariance c' = min (minVariance c) (word_of_int \<bar>(now - start) - full\<bar>)
     \<and> compensation c' = compensation c + word_of_int s)"
  by (simp add: Let_def calcSleepCompensation_fields calcExecTimeError_fields max.commute min.commute)

theorem cycle_records_sample_and_sleepTime_witness:
  "sleepTime 50000000 0 10000000 = Inr 39950000
   \<and> loopBody 50000000 (0, 10000000, 50000300) StatisticsCollector_new =
       Inr (calcSleepCompensation 39950000 (calcExecTimeError 0 50000300 50000000 StatisticsCollector_new),
            SleepTime 39950000)
   \<and> samples (calcSleepCompensation 39950000 (calcExecTimeError 0 50000300 50000000 StatisticsCollector_new)) = 1
   \<and> acummulation (calcSleepCompensation 39950000 (calcExecTimeError 0 50000300 50000000 StatisticsCollector_new)) = 300
   \<and> compensation (calcSleepCompensation 39950000 (calcExecTimeError 0 50000300 50000000 StatisticsCollector_new)) = 39950000"
proof -
  have s: "sleepTime 50000000 0 10000000 = Inr 39950000"
    by (simp add: sleepTime_def)
  show ?thesis
    using s cycle_records_sample_and_sleepTime [OF s, of 50000300 StatisticsCollector_new]
    by (simp add: Let_def StatisticsCollector_new_def)
qed

text \<open>
  Claim C8 as stated fails: with a period of 1000 ns, an action that took 100 ns and a
  wait that lasted the 50 ns from reading 100 to reading 150, the amount added to
  \<open>compensation\<close> is \<open>- 49100\<close> (as a \<^verbatim>\<open>uint64_t\<close>: \<open>2 ^ 64 - 49100\<close>), not the 50 ns
  that were waited.
\<close>

theorem recorded_compensation_not_time_waited:
  "loopBody 1000 (0, 100, 150) StatisticsCollector_new =
     Inr (\<lparr> samples = 1, acummulation = 850, compensation = 18446744073709502516,
            maxVariance = 850, minVariance = 850, toleraceExcessionCount = 0 \<rparr>,
          SleepTime (- 49100))
   \<and> (18446744073709502516 :: uint64_t) \<noteq> word_of_int (150 - 100)"
  by (simp add: sleepTime_def Let_def calcSleepCompensation_def calcExecTimeError_def
      accumulate_def considerVariance_def StatisticsCollector_new_def
      tolerance_exceeded_exact)

text \<open>A negative count of at least \<open>- 2 ^ 63\<close> added to a \<^verbatim>\<open>uint64_t\<close>: the two cases.\<close>

lemma uint_add_negative:
  fixes a :: uint64_t
  assumes "s < 0" "- (2 ^ 63) \<le> s"
  shows "if - s \<le> uint a
         then uint (a + word_of_int s) = uint a - \<bar>s\<bar>
         else uint (a + word_of_int s) = uint a + 2 ^ 64 - \<bar>s\<bar>"
proof -
  have u: "uint (a + word_of_int s) = (uint a + s) mod 2 ^ 64"
    by (rule uint_add_word_of_int)
  have bounds: "0 \<le> uint a" "uint a < 2 ^ 64"
    using uint_lt2p [of a] by simp_all
  show ?thesis
  proof (cases "- s \<le> uint a")
    case True
    then have "(uint a + s) mod 2 ^ 64 = uint a + s"
      using bounds assms(1) by (intro mod_pos_pos_trivial) simp_all
    then show ?thesis using True u assms(1) by simp
  next
    case False
    have big: "- (2 ^ 64 :: int) \<le> - (2 ^ 63)" by simp
    have "- (2 ^ 64) \<le> uint a + s"
      using big bounds(1) assms(2) by linarith
    moreover have "uint a + s < 0"
      using False by linarith
    ultimately have "(uint a + s) mod 2 ^ 64 = uint a + s + 2 ^ 64"
      by (rule mod_wrap_negative)
    then show ?thesis using False u assms(1) by simp
  qed
qed

text \<open>
  Claim C9, as the code has it. The value passed to \<^verbatim>\<open>calcSleepCompensation\<close> in every
  cycle is the sleep time after the subtraction of 50000 ns. It can be negative: it is,
  for example, whenever the action took more than \<open>period - 50000\<close> and at most the
  period. Adding a count \<open>s\<close> to the \<^verbatim>\<open>uint64_t\<close> accumulator \<open>a\<close> gives
  \<open>(a + s) mod 2 ^ 64\<close>; for a negative \<open>s\<close> that is \<open>a - \<bar>s\<bar>\<close> when \<open>\<bar>s\<bar> \<le> a\<close> (the
  accumulator decreases), and \<open>a + 2 ^ 64 - \<bar>s\<bar>\<close> otherwise (it wraps around and does
  not stop at zero).
\<close>

theorem negative_sleepTime_modular:
  "(sleepTime period start stop_t = Inr s \<longrightarrow>
      (let c' = calcSleepCompensation s (calcExecTimeError start now period c)
       in loopBody period (start, stop_t, now) c = Inr (c', SleepTime s)
        \<and> compensation c' = compensation c + word_of_int s
        \<and> uint (compensation c') = (uint (compensation c) + s) mod 2 ^ 64
        \<and> (s < 0 \<and> - (2 ^ 63) \<le> s \<longrightarrow>
             (if - s \<le> uint (compensation c)
              then uint (compensation c') = uint (compensation c) - \<bar>s\<bar>
              else uint (compensation c') = uint (compensation c) + 2 ^ 64 - \<bar>s\<bar>))))
   \<and> (0 < period \<and> period - 50000 < stop_t - start \<and> stop_t - start \<le> period \<longrightarrow>
        sleepTime period start stop_t = Inr (period - (stop_t - start) - 50000)
      \<and> period - (stop_t - start) - 50000 < 0)"
proof (intro conjI impI)
  assume st: "sleepTime period start stop_t = Inr s"
  define c' where "c' = calcSleepCompensation s (calcExecTimeError start now period c)"
  have lb: "loopBody period (start, stop_t, now) c = Inr (c', SleepTime s)"
    using st by (simp add: c'_def)
  have comp: "compensation c' = compensation c + word_of_int s"
    by (simp add: c'_def calcSleepCompensation_fields calcExecTimeError_fields)
  have u: "uint (compensation c') = (uint (compensation c) + s) mod 2 ^ 64"
    by (simp add: comp uint_add_word_of_int)
  have split: "s < 0 \<and> - (2 ^ 63) \<le> s \<longrightarrow>
             (if - s \<le> uint (compensation c)
              then uint (compensation c') = uint (compensation c) - \<bar>s\<bar>
              else uint (compensation c') = uint (compensation c) + 2 ^ 64 - \<bar>s\<bar>)"
    using uint_add_negative [of s "compensation c"] by (simp add: comp)
  show "let c' = calcSleepCompensation s (calcExecTimeError start now period c)
       in loopBody period (start, stop_t, now) c = Inr (c', SleepTime s)
        \<and> compensation c' = compensation c + word_of_int s
        \<and> uint (compensation c') = (uint (compensation c) + s) mod 2 ^ 64
        \<and> (s < 0 \<and> - (2 ^ 63) \<le> s \<longrightarrow>
             (if - s \<le> uint (compensation c)
              then uint (compensation c') = uint (compensation c) - \<bar>s\<bar>
              else uint (compensation c') = uint (compensation c) + 2 ^ 64 - \<bar>s\<bar>))"
    unfolding Let_def c'_def [symmetric] using lb comp u split by blast
next
  assume a: "0 < period \<and> period - 50000 < stop_t - start \<and> stop_t - start \<le> period"
  then show "sleepTime period start stop_t = Inr (period - (stop_t - start) - 50000)"
    by (simp add: sleepTime_pos)
  from a show "period - (stop_t - start) - 50000 < 0" by simp
qed

theorem negative_sleepTime_modular_witness:
  "sleepTime 1000000 0 1980000 = Inr (- 30000)
   \<and> uint (compensation (calcSleepCompensation (- 30000)
        (calcExecTimeError 0 1980100 1000000 StatisticsCollector_new))) = 18446744073709521616
   \<and> sleepTime 1000000 950000 1930000 = Inr (- 30000)
   \<and> uint (compensation (calcSleepCompensation (- 30000)
        (calcExecTimeError 950000 1930100 1000000
           (StatisticsCollector_new \<lparr> compensation := 950000 \<rparr>)))) = 920000"
proof -
  have 1: "sleepTime 1000000 0 1980000 = Inr (- 30000)"
    by (simp add: sleepTime_def c_rem_def)
  have 2: "sleepTime 1000000 950000 1930000 = Inr (- 30000)"
    by (simp add: sleepTime_def)
  show ?thesis
    using 1 2
      negative_sleepTime_modular [of 1000000 0 1980000 "- 30000" 1980100 StatisticsCollector_new]
      negative_sleepTime_modular [of 1000000 950000 1930000 "- 30000" 1930100
        "StatisticsCollector_new \<lparr> compensation := 950000 \<rparr>"]
    by (simp add: Let_def StatisticsCollector_new_def calcExecTimeError_fields)
qed

text \<open>
  Claim C9 as stated fails where it says the accumulator does not decrease: with a
  period of 1 ms, a first cycle adds 950000 ns, and a second cycle whose action took
  980000 ns adds \<open>- 30000\<close>, which leaves 920000.
\<close>

theorem negative_compensation_decreases:
  "loopBody 1000000 (0, 0, 950000) StatisticsCollector_new =
     Inr (\<lparr> samples = 1, acummulation = 50000, compensation = 950000,
            maxVariance = 50000, minVariance = 50000, toleraceExcessionCount = 0 \<rparr>,
          SleepTime 950000)
   \<and> loopBody 1000000 (950000, 1930000, 1930100)
        \<lparr> samples = 1, acummulation = 50000, compensation = 950000,
          maxVariance = 50000, minVariance = 50000, toleraceExcessionCount = 0 \<rparr> =
     Inr (\<lparr> samples = 2, acummulation = 69900, compensation = 920000,
            maxVariance = 50000, minVariance = 19900, toleraceExcessionCount = 0 \<rparr>,
          SleepTime (- 30000))
   \<and> (920000 :: uint64_t) < 950000"
  by (simp add: sleepTime_def Let_def calcSleepCompensation_def calcExecTimeError_def
      accumulate_def considerVariance_def StatisticsCollector_new_def
      tolerance_exceeded_exact)

text \<open>With a period above zero the worker's run never faults.\<close>

lemma workerLoop_pos:
  "0 < p \<Longrightarrow> \<exists>c' lines. workerLoop p cycles final c = Inr (c', lines)"
proof (induction cycles arbitrary: c)
  case Nil
  then show ?case by (cases final) (simp add: sleepTime_pos)
next
  case (Cons cy cycles)
  obtain start stop_t now where cy: "cy = (start, stop_t, now)" by (cases cy)
  obtain s where s: "sleepTime p start stop_t = Inr s" using Cons.prems by (simp add: sleepTime_pos)
  from Cons.IH [OF Cons.prems] obtain c' lines where
    "workerLoop p cycles final (calcSleepCompensation s (calcExecTimeError start now p c)) = Inr (c', lines)"
    by blast
  then show ?case by (simp add: cy s)
qed

section \<open>Properties of the life cycle of a TimerTask\<close>

text \<open>With a sample count other than zero, \<^verbatim>\<open>printResults\<close> prints its report.\<close>

lemma printResults_Inr:
  "samples c \<noteq> 0 \<Longrightarrow> \<exists>r. printResults u c = Inr r"
  by (simp add: printResults_def)

text \<open>\<^verbatim>\<open>stop\<close>, by the state of the thread, and what a returned \<^verbatim>\<open>stop\<close> leaves.\<close>

lemma stop_not_joinable:
  "workerThread t = None \<Longrightarrow>
   stop run t =
     (if statisticsEnabled t
      then (case printResults milliseconds (collector t) of
              Inl e \<Rightarrow> Inl e
            | Inr r \<Rightarrow> Inr (t, [Results r]))
      else Inr (t, []))"
  by (simp add: stop_def split: sum.splits)

lemma stop_spawned:
  "workerThread t = Some Spawned \<Longrightarrow> stop run t = Inl NeverReturns"
  by (simp add: stop_def)

lemma stop_joinable:
  "workerThread t = Some (Started p) \<Longrightarrow>
   workerLoop p (fst run) (snd run) (collector t) = Inr (c, lines) \<Longrightarrow>
   stop run t =
     (if statisticsEnabled t
      then (case printResults milliseconds c of
              Inl e \<Rightarrow> Inl e
            | Inr r \<Rightarrow> Inr (t \<lparr> collector := c, running := False, workerThread := None \<rparr>, lines @ [Results r]))
      else Inr (t \<lparr> collector := c, running := False, workerThread := None \<rparr>, lines))"
  by (simp add: stop_def split: sum.splits)

lemma stop_Inr:
  assumes "stop run t = Inr (t1, out)"
  shows "workerThread t1 = None"
    and "statisticsEnabled t1 = statisticsEnabled t"
    and "rate t1 = rate t" and "ratio t1 = ratio t"
    and "consistent t \<Longrightarrow> \<not> running t1"
    and "statisticsEnabled t \<Longrightarrow>
           \<exists>r. printResults milliseconds (collector t1) = Inr r \<and> out \<noteq> [] \<and> last out = Results r"
  using assms
  by (auto simp add: stop_def consistent_def
      split: option.splits worker.splits sum.splits if_splits prod.splits)

lemma init_fields:
  "running (init t) = running t"
  "workerThread (init t) = (if rate t \<noteq> 0 then Some Spawned else workerThread t)"
  "statisticsEnabled (init t) = statisticsEnabled t"
  "collector (init t) = collector t"
  "rate (init t) = rate t" "ratio (init t) = ratio t"
  by (simp_all add: init_def)

lemma TimerTask_new_fields:
  "running (TimerTask_new r u s) = False"
  "workerThread (TimerTask_new r u s) = (if r \<noteq> 0 then Some Spawned else None)"
  "statisticsEnabled (TimerTask_new r u s) = s"
  "collector (TimerTask_new r u s) = StatisticsCollector_new"
  "rate (TimerTask_new r u s) = r" "ratio (TimerTask_new r u s) = u"
  by (simp_all add: TimerTask_new_def init_fields)


text \<open>
  A task with a rate other than zero, touched before its worker has executed its first
  statement: \<^verbatim>\<open>stop()\<close> does not return, and the destructor, which finds \<^verbatim>\<open>running_\<close>
  false, destroys a joinable thread.
\<close>

lemma before_worker_start:
  "r \<noteq> 0 \<Longrightarrow> stop run (TimerTask_new r u s) = Inl NeverReturns"
  "r \<noteq> 0 \<Longrightarrow> destroy run (TimerTask_new r u s) = Inl Terminate"
  by (simp_all add: stop_spawned destroy_def TimerTask_new_fields)

text \<open>
  Claim C2 (which the code does not meet). A \<^verbatim>\<open>TimerTask\<close> constructed with rate 0
  has no worker thread and is not running, for every unit and every value of the
  statistics flag. With statistics off, \<^verbatim>\<open>stop\<close> on it returns the same state and
  prints nothing. With statistics on (the default), \<^verbatim>\<open>stop\<close> calls \<^verbatim>\<open>printResults\<close> on
  the empty collector and runs into its division by zero.
\<close>

theorem stop_on_rate_zero:
  "workerThread (TimerTask_new 0 u s) = None
   \<and> running (TimerTask_new 0 u s) = False
   \<and> stop run (TimerTask_new 0 u False) = Inr (TimerTask_new 0 u False, [])
   \<and> stop run (TimerTask_new 0 u True) = Inl DivisionByZero"
  by (simp add: stop_not_joinable TimerTask_new_fields printResults_def StatisticsCollector_new_def)

text \<open>The flag after one step, and after a sequence of steps that never restarts.\<close>

lemma setRate_imediate_Inr:
  assumes "setRate run r u True t = Inr (t2, out)"
  shows "\<exists>t1. stop run (t \<lparr> rate := r, ratio := u \<rparr>) = Inr (t1, out) \<and> t2 = init t1"
  using assms by (auto simp add: setRate_def Let_def restart_def split: sum.splits)



text \<open>
  The destructor of an instance that \<^verbatim>\<open>stop\<close> has returned from does not stop it a
  second time: it prints nothing.
\<close>

lemma destroy_after_stop:
  "consistent t \<Longrightarrow> stop run t = Inr (t1, out) \<Longrightarrow> destroy run' t1 = Inr []"
  using stop_Inr(1,5) [of run t t1 out] by (simp add: destroy_def)

text \<open>
  Claim C5, as the code has it. \<^verbatim>\<open>stop\<close> on an instance with no thread to join
  changes no state. With statistics off it prints nothing; with statistics on and a
  sample count other than zero it prints the collector's results once more. Every
  instance a \<^verbatim>\<open>stop\<close> has returned from is such an instance.
\<close>

theorem stop_when_stopped:
  "(workerThread t = None \<longrightarrow>
      (\<not> statisticsEnabled t \<longrightarrow> stop run t = Inr (t, []))
    \<and> (statisticsEnabled t \<and> samples (collector t) \<noteq> 0 \<longrightarrow>
         (\<exists>r. printResults milliseconds (collector t) = Inr r \<and> stop run t = Inr (t, [Results r])))
    \<and> (\<forall>t' out. stop run t = Inr (t', out) \<longrightarrow> t' = t))
   \<and> (\<forall>t0 run0 out0. stop run0 t0 = Inr (t, out0) \<longrightarrow> workerThread t = None)"
proof (intro conjI impI allI)
  assume "workerThread t = None" "\<not> statisticsEnabled t"
  then show "stop run t = Inr (t, [])" by (simp add: stop_not_joinable)
next
  assume n: "workerThread t = None" and e: "statisticsEnabled t \<and> samples (collector t) \<noteq> 0"
  then obtain r where "printResults milliseconds (collector t) = Inr r"
    using printResults_Inr by blast
  then show "\<exists>r. printResults milliseconds (collector t) = Inr r \<and> stop run t = Inr (t, [Results r])"
    using n e by (simp add: stop_not_joinable)
next
  fix t' out
  assume "workerThread t = None" "stop run t = Inr (t', out)"
  then show "t' = t" by (auto simp add: stop_not_joinable split: if_splits sum.splits)
next
  fix t0 run0 out0
  assume "stop run0 t0 = Inr (t, out0)"
  then show "workerThread t = None" by (rule stop_Inr(1))
qed

theorem stop_when_stopped_witness:
  "stop ([], (0, 0))
     \<lparr> rate = 50, ratio = milliseconds,
       collector = \<lparr> samples = 1, acummulation = 300, compensation = 39950000,
                     maxVariance = 300, minVariance = 300, toleraceExcessionCount = 0 \<rparr>,
       statisticsEnabled = False, running = False, workerThread = None \<rparr>
   = Inr (\<lparr> rate = 50, ratio = milliseconds,
       collector = \<lparr> samples = 1, acummulation = 300, compensation = 39950000,
                     maxVariance = 300, minVariance = 300, toleraceExcessionCount = 0 \<rparr>,
       statisticsEnabled = False, running = False, workerThread = None \<rparr>, [])
   \<and> stop ([], (0, 0))
     \<lparr> rate = 50, ratio = milliseconds,
       collector = \<lparr> samples = 1, acummulation = 300, compensation = 39950000,
                     maxVariance = 300, minVariance = 300, toleraceExcessionCount = 0 \<rparr>,
       statisticsEnabled = True, running = False, workerThread = None \<rparr>
   = Inr (\<lparr> rate = 50, ratio = milliseconds,
       collector = \<lparr> samples = 1, acummulation = 300, compensation = 39950000,
                     maxVariance = 300, minVariance = 300, toleraceExcessionCount = 0 \<rparr>,
       statisticsEnabled = True, running = False, workerThread = None \<rparr>,
          [Results \<lparr> r_samples = 1, r_deviation_average_ns = 300,
                     r_compensation_average_ns = 39950000, r_maxVariance = 300,
                     r_minVariance = 300, r_samplingUnit = milliseconds,
                     r_unitName = ''milliseconds'', r_toleraceExcessionCount = 0 \<rparr>])"
  using stop_when_stopped [of "\<lparr> rate = 50, ratio = milliseconds,
       collector = \<lparr> samples = 1, acummulation = 300, compensation = 39950000,
                     maxVariance = 300, minVariance = 300, toleraceExcessionCount = 0 \<rparr>,
       statisticsEnabled = False, running = False, workerThread = None \<rparr>" "([], (0, 0))"]
    stop_when_stopped [of "\<lparr> rate = 50, ratio = milliseconds,
       collector = \<lparr> samples = 1, acummulation = 300, compensation = 39950000,
                     maxVariance = 300, minVariance = 300, toleraceExcessionCount = 0 \<rparr>,
       statisticsEnabled = True, running = False, workerThread = None \<rparr>" "([], (0, 0))"]
  by (simp add: printResults_def)

text \<open>
  Claim C5 as stated fails: a task with a 50 ms period and statistics on, whose worker
  has started and which is stopped after one completed cycle, prints its results; a
  second \<^verbatim>\<open>stop\<close> leaves the state as it is and prints the same results again.
\<close>

theorem stop_again_prints_again:
  "stop ([(0, 10000000, 50000300)], (50000300, 60000000))
     (workerStart (TimerTask_new 50 milliseconds True))
   = Inr (\<lparr> rate = 50, ratio = milliseconds,
       collector = \<lparr> samples = 1, acummulation = 300, compensation = 39950000,
                     maxVariance = 300, minVariance = 300, toleraceExcessionCount = 0 \<rparr>,
       statisticsEnabled = True, running = False, workerThread = None \<rparr>,
          [SleepTime 39950000, SleepTime 39950300,
           Results \<lparr> r_samples = 1, r_deviation_average_ns = 300,
                     r_compensation_average_ns = 39950000, r_maxVariance = 300,
                     r_minVariance = 300, r_samplingUnit = milliseconds,
                     r_unitName = ''milliseconds'', r_toleraceExcessionCount = 0 \<rparr>])
   \<and> stop ([], (0, 0))
         \<lparr> rate = 50, ratio = milliseconds,
       collector = \<lparr> samples = 1, acummulation = 300, compensation = 39950000,
                     maxVariance = 300, minVariance = 300, toleraceExcessionCount = 0 \<rparr>,
       statisticsEnabled = True, running = False, workerThread = None \<rparr>
   = Inr (\<lparr> rate = 50, ratio = milliseconds,
       collector = \<lparr> samples = 1, acummulation = 300, compensation = 39950000,
                     maxVariance = 300, minVariance = 300, toleraceExcessionCount = 0 \<rparr>,
       statisticsEnabled = True, running = False, workerThread = None \<rparr>,
          [Results \<lparr> r_samples = 1, r_deviation_average_ns = 300,
                     r_compensation_average_ns = 39950000, r_maxVariance = 300,
                     r_minVariance = 300, r_samplingUnit = milliseconds,
                     r_unitName = ''milliseconds'', r_toleraceExcessionCount = 0 \<rparr>])"
  by (simp add: stop_def workerStart_def TimerTask_new_def init_def sleepTime_def Let_def
      calcSleepCompensation_def calcExecTimeError_def accumulate_def considerVariance_def
      StatisticsCollector_new_def tolerance_exceeded_exact printResults_def)




text \<open>
  With statistics on, every \<^verbatim>\<open>stop\<close> that returns has printed, last, the results of
  the collector as \<^verbatim>\<open>printResults(milliseconds)\<close> gives them, and so has every immediate
  \<^verbatim>\<open>setRate\<close> that returns: the call of \<^verbatim>\<open>printResults\<close> is outside the test for a
  thread to join.
\<close>

lemma stop_prints_results:
  assumes "statisticsEnabled t"
  shows "stop run t = Inr (t1, out) \<Longrightarrow>
           \<exists>rep. printResults milliseconds (collector t1) = Inr rep
                \<and> out \<noteq> [] \<and> last out = Results rep"
    and "setRate run r u True t = Inr (t2, out2) \<Longrightarrow>
           \<exists>rep. out2 \<noteq> [] \<and> last out2 = Results rep"
proof -
  show "stop run t = Inr (t1, out) \<Longrightarrow>
           \<exists>rep. printResults milliseconds (collector t1) = Inr rep
                \<and> out \<noteq> [] \<and> last out = Results rep"
    using assms stop_Inr(6) by blast
  assume "setRate run r u True t = Inr (t2, out2)"
  then obtain t0 where "stop run (t \<lparr> rate := r, ratio := u \<rparr>) = Inr (t0, out2)"
    using setRate_imediate_Inr by blast
  moreover have "statisticsEnabled (t \<lparr> rate := r, ratio := u \<rparr>)" using assms by simp
  ultimately show "\<exists>rep. out2 \<noteq> [] \<and> last out2 = Results rep"
    using stop_Inr(6) by blast
qed

text \<open>
  Claim C10 (which the code does not meet). A task with a 50 ms period and statistics
  on, whose worker has started and which is stopped before its first cycle has
  completed, has no sample: \<^verbatim>\<open>stop\<close> joins the worker, calls \<^verbatim>\<open>printResults\<close> and runs
  into its division by zero; no results are printed. The same happens at the \<^verbatim>\<open>stop\<close>
  inside an immediate \<^verbatim>\<open>setRate\<close>, and at a repeated \<^verbatim>\<open>stop\<close> of a task with rate 0.
\<close>

theorem stop_before_first_cycle_prints_nothing:
  "stop ([], (0, 10000000)) (workerStart (TimerTask_new 50 milliseconds True))
     = Inl DivisionByZero
   \<and> setRate ([], (0, 10000000)) 20 milliseconds True
       (workerStart (TimerTask_new 50 milliseconds True))
     = Inl DivisionByZero
   \<and> stop ([], (0, 0)) (TimerTask_new 0 milliseconds True) = Inl DivisionByZero"
  by (simp add: stop_def setRate_def restart_def workerStart_def TimerTask_new_def init_def
      sleepTime_def printResults_def StatisticsCollector_new_def)

end
